theory Spec2Isabelle
  imports Complex_Main "HOL-Library.Multiset"
begin

section \<open>Values\<close>

text \<open>
  Python values as they travel between the request, the schemas and \<^verbatim>\<open>jsonify\<close>:
  what \<^verbatim>\<open>request.get_json()\<close> returns (None, bool, int, float, str, list, dict with
  string keys) and, in addition, the Python set, which the source builds with a set
  literal in \<^verbatim>\<open>get_user\<close>. A dict is the list of its items; the order of the items carries
  no meaning. A character of a \<^typ>\<open>string\<close> stands for one code point, so that
  \<^term>\<open>length\<close> is Python's \<^verbatim>\<open>len\<close>. A \<^verbatim>\<open>datetime\<close> is carried as its ISO 8601 text.
\<close>

datatype pyval =
    PNone
  | PBool bool
  | PInt int
  | PFloat real
  | PStr string
  | PList "pyval list"
  | PDict "(string \<times> pyval) list"
  | PSet "pyval list"

type_synonym datetime = string

datatype exn = TypeError | RecursionError | IntegrityError | DataError

text \<open>
  What a view function hands back to Flask: a body with a status, or an exception that
  nothing in the source catches (Flask answers those with status 500).
  \<open>Outside_Model\<close> marks the one write path that this development does not embed: see
  \<open>names_relationship\<close> below.
\<close>

datatype response = Response nat pyval | Raises exn | Outside_Model

fun status :: "response \<Rightarrow> nat" where
  "status (Response code b) = code"
| "status (Raises e) = 500"
| "status Outside_Model = 0"

fun body :: "response \<Rightarrow> pyval option" where
  "body (Response code b) = Some b"
| "body (Raises e) = None"
| "body Outside_Model = None"

text \<open>
  \<^verbatim>\<open>jsonify(value), code\<close>. Flask's JSON provider serialises None, bool, numbers, str, list
  and dict, and raises \<^verbatim>\<open>TypeError\<close> for any other object; a set is such an object.
\<close>

fun json_ok :: "pyval \<Rightarrow> bool" where
  "json_ok (PSet xs) = False"
| "json_ok (PList xs) = list_all json_ok xs"
| "json_ok (PDict kvs) = list_all json_ok (map snd kvs)"
| "json_ok v = True"

definition jsonify :: "pyval \<Rightarrow> nat \<Rightarrow> response" where
  "jsonify v code = (if json_ok v then Response code v else Raises TypeError)"

section \<open>Models\<close>

text \<open>The three mapped classes and the association table, lines 29 to 64 of the source.\<close>

record user =
  u_id :: int
  u_name :: string
  u_address :: string
  u_email :: string

record order =
  o_id :: int
  o_order_date :: datetime
  o_user_id :: int

record product =
  p_id :: int
  p_product_name :: string
  p_price :: real

datatype model = User | Order | Product

datatype row = UserRow user | OrderRow order | ProductRow product

text \<open>
  The database: each table is the list of its rows in the order of their insertion,
  \<open>order_product\<close> holds the pairs (order id, product id), and each \<open>seq\<close> is the
  next value of the table's auto-increment key.
\<close>

record store =
  users :: "user list"
  orders :: "order list"
  products :: "product list"
  order_product :: "(int \<times> int) list"
  user_seq :: int
  order_seq :: int
  product_seq :: int

text \<open>The declared columns, with what \<^verbatim>\<open>mapped_column\<close> says about each.\<close>

datatype coltype = ColInteger | ColString nat | ColFloat | ColDateTime

record column =
  c_name :: string
  c_type :: coltype
  c_primary_key :: bool
  c_nullable :: bool
  c_unique :: bool
  c_default :: bool
  c_foreign_key :: bool

definition col :: "string \<Rightarrow> coltype \<Rightarrow> column" where
  "col n t = \<lparr>c_name = n, c_type = t, c_primary_key = False, c_nullable = False,
     c_unique = False, c_default = False, c_foreign_key = False\<rparr>"

fun model_columns :: "model \<Rightarrow> column list" where
  "model_columns User =
     [(col ''id'' ColInteger)\<lparr>c_primary_key := True\<rparr>,
      col ''name'' (ColString 100),
      col ''address'' (ColString 200),
      (col ''email'' (ColString 120))\<lparr>c_unique := True\<rparr>]"
| "model_columns Order =
     [(col ''id'' ColInteger)\<lparr>c_primary_key := True\<rparr>,
      (col ''order_date'' ColDateTime)\<lparr>c_default := True\<rparr>,
      (col ''user_id'' ColInteger)\<lparr>c_foreign_key := True\<rparr>]"
| "model_columns Product =
     [(col ''id'' ColInteger)\<lparr>c_primary_key := True\<rparr>,
      col ''product_name'' (ColString 100),
      col ''price'' ColFloat]"

text \<open>The relationships: attribute name, target class, and whether it is a list.\<close>

fun model_relationships :: "model \<Rightarrow> (string \<times> model \<times> bool) list" where
  "model_relationships User = [(''orders'', Order, True)]"
| "model_relationships Order = [(''user'', User, False), (''products'', Product, True)]"
| "model_relationships Product = [(''orders'', Order, True)]"

text \<open>Reading a column attribute of a row, as the value the schema field serialises.\<close>

fun attr :: "row \<Rightarrow> string \<Rightarrow> pyval option" where
  "attr (UserRow u) n =
     (if n = ''id'' then Some (PInt (u_id u))
      else if n = ''name'' then Some (PStr (u_name u))
      else if n = ''address'' then Some (PStr (u_address u))
      else if n = ''email'' then Some (PStr (u_email u))
      else None)"
| "attr (OrderRow od) n =
     (if n = ''id'' then Some (PInt (o_id od))
      else if n = ''order_date'' then Some (PStr (o_order_date od))
      else if n = ''user_id'' then Some (PInt (o_user_id od))
      else None)"
| "attr (ProductRow p) n =
     (if n = ''id'' then Some (PInt (p_id p))
      else if n = ''product_name'' then Some (PStr (p_product_name p))
      else if n = ''price'' then Some (PFloat (p_price p))
      else None)"

section \<open>The session\<close>

text \<open>\<^verbatim>\<open>db.session.get(Model, id)\<close>: the row with that primary key, or None.\<close>

definition get_User :: "store \<Rightarrow> int \<Rightarrow> user option" where
  "get_User s i = find (\<lambda>u. u_id u = i) (users s)"

definition get_Order :: "store \<Rightarrow> int \<Rightarrow> order option" where
  "get_Order s i = find (\<lambda>od. o_id od = i) (orders s)"

definition get_Product :: "store \<Rightarrow> int \<Rightarrow> product option" where
  "get_Product s i = find (\<lambda>p. p_id p = i) (products s)"



text \<open>
  The relationship attributes. \<^verbatim>\<open>user.orders\<close> and \<^verbatim>\<open>order.user\<close> go through the foreign
  key \<^verbatim>\<open>orders.user_id\<close>; \<^verbatim>\<open>order.products\<close> and \<^verbatim>\<open>product.orders\<close> go through the
  association table (\<^verbatim>\<open>secondary=order_product\<close>).
\<close>

definition user_orders :: "store \<Rightarrow> user \<Rightarrow> order list" where
  "user_orders s u = filter (\<lambda>od. o_user_id od = u_id u) (orders s)"

definition order_user :: "store \<Rightarrow> order \<Rightarrow> user option" where
  "order_user s od = get_User s (o_user_id od)"

definition order_products :: "store \<Rightarrow> order \<Rightarrow> product list" where
  "order_products s od =
     concat (map (\<lambda>(oid, pid). if oid = o_id od then filter (\<lambda>p. p_id p = pid) (products s) else [])
       (order_product s))"

definition product_orders :: "store \<Rightarrow> product \<Rightarrow> order list" where
  "product_orders s p =
     concat (map (\<lambda>(oid, pid). if pid = p_id p then filter (\<lambda>od. o_id od = oid) (orders s) else [])
       (order_product s))"

fun related :: "store \<Rightarrow> row \<Rightarrow> string \<Rightarrow> row list" where
  "related s (UserRow u) n = (if n = ''orders'' then map OrderRow (user_orders s u) else [])"
| "related s (OrderRow od) n =
     (if n = ''user'' then (case order_user s od of None \<Rightarrow> [] | Some u \<Rightarrow> [UserRow u])
      else if n = ''products'' then map ProductRow (order_products s od)
      else [])"
| "related s (ProductRow p) n = (if n = ''orders'' then map OrderRow (product_orders s p) else [])"

section \<open>Schemas\<close>

text \<open>
  The three \<^verbatim>\<open>SQLAlchemyAutoSchema\<close> classes, lines 69 to 119 of the source. A schema is
  its \<^verbatim>\<open>Meta\<close> options and the fields its body declares; the fields the body leaves out
  are generated from the model. A field is its type and the keyword arguments
  \<^verbatim>\<open>required\<close>, \<^verbatim>\<open>allow_none\<close>, \<^verbatim>\<open>validate\<close> and \<^verbatim>\<open>dump_only\<close>.
\<close>

datatype schema = UserSchema | OrderSchema | ProductSchema

datatype validator = Length "nat option" "nat option" | Email

datatype ftype =
    FInteger
  | FFloat
  | FStr
  | FEmail
  | FDateTime
  | FRelated
  | FNested schema "string list"
  | FListNested schema "string list"

record field =
  f_type :: ftype
  f_required :: bool
  f_allow_none :: bool
  f_validate :: "validator list"
  f_dump_only :: bool

text \<open>A field built with no keyword argument.\<close>

definition fld :: "ftype \<Rightarrow> field" where
  "fld t = \<lparr>f_type = t, f_required = False, f_allow_none = False, f_validate = [],
     f_dump_only = False\<rparr>"

fun meta_model :: "schema \<Rightarrow> model" where
  "meta_model UserSchema = User"
| "meta_model OrderSchema = Order"
| "meta_model ProductSchema = Product"

fun include_relationships :: "schema \<Rightarrow> bool" where
  "include_relationships UserSchema = True"
| "include_relationships OrderSchema = True"
| "include_relationships ProductSchema = True"

fun include_fk :: "schema \<Rightarrow> bool" where
  "include_fk UserSchema = True"
| "include_fk OrderSchema = True"
| "include_fk ProductSchema = False"

text \<open>
  The declared fields. \<open>FNested sch only\<close> is \<^verbatim>\<open>fields.Nested(sch, only=...)\<close> and
  \<open>FListNested sch only\<close> is \<^verbatim>\<open>fields.List(fields.Nested(sch, only=...))\<close>. In the three
  lists, \<^verbatim>\<open>dump_only=True\<close> is an argument of the inner \<^verbatim>\<open>Nested\<close>, not of the \<^verbatim>\<open>List\<close>
  that the schema holds, whose own \<^verbatim>\<open>dump_only\<close> stays False; in \<^verbatim>\<open>OrderSchema.user\<close> it
  is an argument of the field itself.
\<close>

fun declared :: "schema \<Rightarrow> (string \<times> field) list" where
  "declared ProductSchema =
     [(''orders'', fld (FListNested OrderSchema [''id'', ''order_date'', ''user_id'']))]"
| "declared OrderSchema =
     [(''user'', (fld (FNested UserSchema [''id'', ''name'', ''email'']))\<lparr>f_dump_only := True\<rparr>),
      (''products'', fld (FListNested ProductSchema [''id'', ''product_name'', ''price'']))]"
| "declared UserSchema =
     [(''email'', (fld FEmail)\<lparr>f_required := True\<rparr>),
      (''address'', (fld FStr)\<lparr>f_validate := [Length (Some 5) (Some 150)]\<rparr>),
      (''orders'', fld (FListNested OrderSchema [''id'', ''order_date'']))]"

text \<open>
  The field that marshmallow-sqlalchemy generates for a column: required when the column
  is not nullable and has no default (an integer primary key counts as having one, being
  auto-incremented), nullable as the column is, with a maximum length for a sized string.
\<close>

definition has_default :: "column \<Rightarrow> bool" where
  "has_default c = (c_default c \<or> (c_primary_key c \<and> c_type c = ColInteger))"

definition field_for_column :: "column \<Rightarrow> field" where
  "field_for_column c =
     \<lparr>f_type = (case c_type c of ColInteger \<Rightarrow> FInteger | ColString n \<Rightarrow> FStr
                 | ColFloat \<Rightarrow> FFloat | ColDateTime \<Rightarrow> FDateTime),
      f_required = (\<not> c_nullable c \<and> \<not> has_default c),
      f_allow_none = c_nullable c,
      f_validate = (case c_type c of ColString n \<Rightarrow> [Length None (Some n)] | _ \<Rightarrow> []),
      f_dump_only = False\<rparr>"

definition auto_fields :: "schema \<Rightarrow> (string \<times> field) list" where
  "auto_fields sch =
     map (\<lambda>c. (c_name c, field_for_column c))
       (filter (\<lambda>c. include_fk sch \<or> \<not> c_foreign_key c) (model_columns (meta_model sch)))
     @ (if include_relationships sch
        then map (\<lambda>r. (fst r, fld FRelated)) (model_relationships (meta_model sch))
        else [])"

text \<open>A declared field replaces the generated field of the same name.\<close>

definition schema_fields :: "schema \<Rightarrow> (string \<times> field) list" where
  "schema_fields sch =
     map (\<lambda>(n, f). case map_of (declared sch) n of Some d \<Rightarrow> (n, d) | None \<Rightarrow> (n, f))
       (auto_fields sch)
     @ filter (\<lambda>(n, d). n \<notin> set (map fst (auto_fields sch))) (declared sch)"

subsection \<open>Dump\<close>

definition dump_fields :: "schema \<Rightarrow> string list option \<Rightarrow> (string \<times> field) list" where
  "dump_fields sch only =
     filter (\<lambda>(n, f). case only of None \<Rightarrow> True | Some ns \<Rightarrow> n \<in> set ns) (schema_fields sch)"

fun primary_key :: "row \<Rightarrow> pyval" where
  "primary_key (UserRow u) = PInt (u_id u)"
| "primary_key (OrderRow od) = PInt (o_id od)"
| "primary_key (ProductRow p) = PInt (p_id p)"

definition uselist :: "schema \<Rightarrow> string \<Rightarrow> bool" where
  "uselist sch n =
     (case map_of (model_relationships (meta_model sch)) n of None \<Rightarrow> False | Some r \<Rightarrow> snd r)"

text \<open>
  \<open>dump n s sch only r\<close> serialises the row \<open>r\<close> with the schema \<open>sch\<close> restricted to the
  fields named in \<open>only\<close>. A nested field serialises the related rows with its own schema
  and its own \<open>only\<close>, one level further down; \<open>n\<close> bounds the depth, and None says that
  the bound was reached. A generated relationship field gives the related primary keys.
\<close>

fun dump :: "nat \<Rightarrow> store \<Rightarrow> schema \<Rightarrow> string list option \<Rightarrow> row \<Rightarrow> pyval option" where
  "dump 0 s sch only r = None"
| "dump (Suc n) s sch only r =
     map_option (\<lambda>items. PDict (concat items))
       (those (map (\<lambda>(name, f).
          case f_type f of
            FNested sch' only' \<Rightarrow>
              (case related s r name of
                 [] \<Rightarrow> Some [(name, PNone)]
               | r' # rs \<Rightarrow> map_option (\<lambda>v. [(name, v)]) (dump n s sch' (Some only') r'))
          | FListNested sch' only' \<Rightarrow>
              map_option (\<lambda>vs. [(name, PList vs)])
                (those (map (dump n s sch' (Some only')) (related s r name)))
          | FRelated \<Rightarrow>
              Some [(name,
                 if uselist sch name then PList (map primary_key (related s r name))
                 else (case related s r name of [] \<Rightarrow> PNone | r' # rs \<Rightarrow> primary_key r'))]
          | _ \<Rightarrow> (case attr r name of None \<Rightarrow> Some [] | Some v \<Rightarrow> Some [(name, v)]))
        (dump_fields sch only)))"

text \<open>
  \<^verbatim>\<open>schema.jsonify(obj), code\<close> for a schema instance, and for one built with
  \<^verbatim>\<open>many=True\<close>. Python cuts a recursion that goes deeper than its recursion limit.
\<close>

definition recursion_limit :: nat where
  "recursion_limit = 1000"

definition schema_jsonify :: "store \<Rightarrow> schema \<Rightarrow> row \<Rightarrow> nat \<Rightarrow> response" where
  "schema_jsonify s sch r code =
     (case dump recursion_limit s sch None r of
        None \<Rightarrow> Raises RecursionError
      | Some v \<Rightarrow> jsonify v code)"

definition schema_jsonify_many :: "store \<Rightarrow> schema \<Rightarrow> row list \<Rightarrow> nat \<Rightarrow> response" where
  "schema_jsonify_many s sch rs code =
     (case those (map (dump recursion_limit s sch None) rs) of
        None \<Rightarrow> Raises RecursionError
      | Some vs \<Rightarrow> jsonify (PList vs) code)"

subsection \<open>Load\<close>

text \<open>
  The error messages of a \<^verbatim>\<open>ValidationError\<close>: a list of messages for a field, or a dict
  from names to messages, which is what \<^verbatim>\<open>err.messages\<close> is for a schema.
\<close>

datatype errors = Messages "string list" | Errors "(string \<times> errors) list"

fun messages :: "errors \<Rightarrow> pyval" where
  "messages (Messages ms) = PList (map PStr ms)"
| "messages (Errors kvs) = PDict (map (\<lambda>kv. (fst kv, messages (snd kv))) kvs)"

text \<open>
  The functions of marshmallow that the schemas call and whose text is not part of the
  repository: the syntax check of the \<^verbatim>\<open>Email\<close> validator, the conversions of the
  \<^verbatim>\<open>Integer\<close>, \<^verbatim>\<open>Float\<close> and \<^verbatim>\<open>DateTime\<close> fields (each gives the converted value or the
  messages of its failure), and the loading of a relationship field from nested data.
\<close>

record lib =
  email_valid :: "string \<Rightarrow> bool"
  as_integer :: "pyval \<Rightarrow> string list + int"
  as_float :: "pyval \<Rightarrow> string list + real"
  as_datetime :: "pyval \<Rightarrow> string list + datetime"
  as_related :: "ftype \<Rightarrow> pyval \<Rightarrow> errors + pyval"

text \<open>Decimal digits of a number, for the messages that quote one.\<close>

function decimal :: "nat \<Rightarrow> string" where
  "decimal n =
     (if n < 10 then [''0123456789'' ! n]
      else decimal (n div 10) @ [''0123456789'' ! (n mod 10)])"
  by pat_completeness auto
termination
  by (relation "measure id") auto

declare decimal.simps [simp del]

text \<open>
  The validators. \<^verbatim>\<open>Length(min, max)\<close> compares \<^verbatim>\<open>len(value)\<close> with both bounds, each
  inclusive, and names both bounds in its message when both are given.
\<close>

fun run_validator :: "lib \<Rightarrow> validator \<Rightarrow> pyval \<Rightarrow> string list" where
  "run_validator L (Length mn mx) (PStr x) =
     (case (mn, mx) of
        (Some a, Some b) \<Rightarrow>
          if length x < a \<or> length x > b
          then [''Length must be between '' @ decimal a @ '' and '' @ decimal b @ ''.'']
          else []
      | (Some a, None) \<Rightarrow>
          if length x < a then [''Shorter than minimum length '' @ decimal a @ ''.''] else []
      | (None, Some b) \<Rightarrow>
          if length x > b then [''Longer than maximum length '' @ decimal b @ ''.''] else []
      | (None, None) \<Rightarrow> [])"
| "run_validator L Email (PStr x) =
     (if email_valid L x then [] else [''Not a valid email address.''])"
| "run_validator L v x = []"

text \<open>An \<^verbatim>\<open>Email\<close> field puts its syntax check in front of the validators it is given.\<close>

definition validators :: "field \<Rightarrow> validator list" where
  "validators f = (if f_type f = FEmail then [Email] else []) @ f_validate f"

text \<open>The conversion of a value that is present and not null, by the type of the field.\<close>

fun deserialize_value :: "lib \<Rightarrow> ftype \<Rightarrow> pyval \<Rightarrow> errors + pyval" where
  "deserialize_value L FStr v =
     (case v of PStr x \<Rightarrow> Inr (PStr x) | _ \<Rightarrow> Inl (Messages [''Not a valid string.'']))"
| "deserialize_value L FEmail v =
     (case v of PStr x \<Rightarrow> Inr (PStr x) | _ \<Rightarrow> Inl (Messages [''Not a valid string.'']))"
| "deserialize_value L FInteger v =
     (case as_integer L v of Inl ms \<Rightarrow> Inl (Messages ms) | Inr i \<Rightarrow> Inr (PInt i))"
| "deserialize_value L FFloat v =
     (case as_float L v of Inl ms \<Rightarrow> Inl (Messages ms) | Inr x \<Rightarrow> Inr (PFloat x))"
| "deserialize_value L FDateTime v =
     (case as_datetime L v of Inl ms \<Rightarrow> Inl (Messages ms) | Inr d \<Rightarrow> Inr (PStr d))"
| "deserialize_value L t v = as_related L t v"

text \<open>
  \<^verbatim>\<open>Field.deserialize\<close>: the raw value is None when the key is missing from the payload.
  A missing value fails a required field and is otherwise left out of the result; a
  null fails unless the field allows it; any other value is converted and then shown to
  every validator, whose messages are collected.
\<close>

definition deserialize :: "lib \<Rightarrow> field \<Rightarrow> pyval option \<Rightarrow> errors + pyval option" where
  "deserialize L f raw =
     (case raw of
        None \<Rightarrow>
          if f_required f then Inl (Messages [''Missing data for required field.''])
          else Inr None
      | Some PNone \<Rightarrow>
          if f_allow_none f then Inr (Some PNone)
          else Inl (Messages [''Field may not be null.''])
      | Some v \<Rightarrow>
          (case deserialize_value L (f_type f) v of
             Inl e \<Rightarrow> Inl e
           | Inr out \<Rightarrow>
               (case concat (map (\<lambda>val. run_validator L val out) (validators f)) of
                  [] \<Rightarrow> Inr (Some out)
                | m # ms \<Rightarrow> Inl (Messages (m # ms)))))"

definition load_fields :: "schema \<Rightarrow> (string \<times> field) list" where
  "load_fields sch = filter (\<lambda>(n, f). \<not> f_dump_only f) (schema_fields sch)"

text \<open>
  What the loop of \<^verbatim>\<open>Schema._deserialize\<close> does with one field: with \<^verbatim>\<open>partial=True\<close> a
  missing key is skipped before the field sees it.
\<close>

definition load_field :: "lib \<Rightarrow> bool \<Rightarrow> (string \<times> pyval) list \<Rightarrow> field \<Rightarrow> string
    \<Rightarrow> errors + pyval option" where
  "load_field L partial kvs f n =
     (case map_of kvs n of
        None \<Rightarrow> if partial then Inr None else deserialize L f None
      | Some v \<Rightarrow> deserialize L f (Some v))"

fun field_errors :: "(string \<times> (errors + pyval option)) list \<Rightarrow> (string \<times> errors) list" where
  "field_errors [] = []"
| "field_errors ((n, Inl e) # rs) = (n, e) # field_errors rs"
| "field_errors ((n, Inr v) # rs) = field_errors rs"

fun field_values :: "(string \<times> (errors + pyval option)) list \<Rightarrow> (string \<times> pyval) list" where
  "field_values [] = []"
| "field_values ((n, Inr (Some v)) # rs) = (n, v) # field_values rs"
| "field_values ((n, r) # rs) = field_values rs"

definition unknown_errors :: "schema \<Rightarrow> (string \<times> pyval) list \<Rightarrow> (string \<times> errors) list" where
  "unknown_errors sch kvs =
     map (\<lambda>k. (k, Messages [''Unknown field.'']))
       (filter (\<lambda>k. k \<notin> set (map fst (load_fields sch))) (remdups (map fst kvs)))"

text \<open>
  \<^verbatim>\<open>schema.load(data, partial=...)\<close> up to the point where the instance is made: every
  field of the schema that is not \<^verbatim>\<open>dump_only\<close> is loaded, every key of the payload that
  names no such field is an error (\<^verbatim>\<open>unknown=RAISE\<close>, the default), and the errors of all
  fields are raised together. The result is the dict of the loaded values.
\<close>

definition schema_load :: "lib \<Rightarrow> schema \<Rightarrow> bool \<Rightarrow> pyval \<Rightarrow> errors + (string \<times> pyval) list" where
  "schema_load L sch partial data =
     (case data of
        PDict kvs \<Rightarrow>
          (let results = map (\<lambda>(n, f). (n, load_field L partial kvs f n)) (load_fields sch);
               errs = field_errors results @ unknown_errors sch kvs
           in if errs = [] then Inr (field_values results) else Inl (Errors errs))
      | _ \<Rightarrow> Inl (Errors [(''_schema'', Messages [''Invalid input type.''])]))"

section \<open>Commit\<close>

text \<open>
  \<^verbatim>\<open>db.session.add\<close>, the attribute writes of a load onto an existing instance,
  \<^verbatim>\<open>db.session.delete\<close>, and \<^verbatim>\<open>db.session.commit()\<close>. The database enforces what the models
  declare: primary keys and \<^verbatim>\<open>unique=True\<close> (\<^verbatim>\<open>IntegrityError\<close>), \<^verbatim>\<open>nullable=False\<close> and
  foreign keys (\<^verbatim>\<open>IntegrityError\<close>), and the sizes of the string columns on the values
  that a statement writes (\<^verbatim>\<open>DataError\<close>, MySQL's strict mode). A failed commit leaves the
  tables as they were.

  One kind of loaded data is not embedded: data that names a relationship, whose related
  rows are written through the collection.
\<close>

definition names_relationship :: "schema \<Rightarrow> (string \<times> pyval) list \<Rightarrow> bool" where
  "names_relationship sch data =
     list_ex (\<lambda>kv. fst kv \<in> set (map fst (model_relationships (meta_model sch)))) data"

text \<open>
  With \<^verbatim>\<open>load_instance = True\<close> the load ends in \<^verbatim>\<open>make_instance\<close>: when no instance is
  passed in and the loaded data give the primary key, the row of that key is looked up
  and, if there is one, it is the instance that the data are written onto; otherwise a new
  instance is made from the data.
\<close>

definition loaded_key :: "(string \<times> pyval) list \<Rightarrow> int option" where
  "loaded_key data = (case map_of data ''id'' of Some (PInt i) \<Rightarrow> Some i | _ \<Rightarrow> None)"

definition get_instance_User :: "store \<Rightarrow> (string \<times> pyval) list \<Rightarrow> user option" where
  "get_instance_User s data =
     (case loaded_key data of None \<Rightarrow> None | Some i \<Rightarrow> get_User s i)"


definition get_instance_Order :: "store \<Rightarrow> (string \<times> pyval) list \<Rightarrow> order option" where
  "get_instance_Order s data =
     (case loaded_key data of None \<Rightarrow> None | Some i \<Rightarrow> get_Order s i)"

text \<open>\<^verbatim>\<open>setattr(instance, key, value)\<close> for each item of the loaded data.\<close>

fun setattr_User :: "string \<times> pyval \<Rightarrow> user \<Rightarrow> user" where
  "setattr_User (k, PStr x) u =
     (if k = ''name'' then u\<lparr>u_name := x\<rparr>
      else if k = ''address'' then u\<lparr>u_address := x\<rparr>
      else if k = ''email'' then u\<lparr>u_email := x\<rparr>
      else u)"
| "setattr_User (k, PInt i) u = (if k = ''id'' then u\<lparr>u_id := i\<rparr> else u)"
| "setattr_User (k, v) u = u"

fun setattr_Product :: "string \<times> pyval \<Rightarrow> product \<Rightarrow> product" where
  "setattr_Product (k, PStr x) p = (if k = ''product_name'' then p\<lparr>p_product_name := x\<rparr> else p)"
| "setattr_Product (k, PFloat x) p = (if k = ''price'' then p\<lparr>p_price := x\<rparr> else p)"
| "setattr_Product (k, PInt i) p = (if k = ''id'' then p\<lparr>p_id := i\<rparr> else p)"
| "setattr_Product (k, v) p = p"

fun setattr_Order :: "string \<times> pyval \<Rightarrow> order \<Rightarrow> order" where
  "setattr_Order (k, PStr x) od = (if k = ''order_date'' then od\<lparr>o_order_date := x\<rparr> else od)"
| "setattr_Order (k, PInt i) od =
     (if k = ''id'' then od\<lparr>o_id := i\<rparr>
      else if k = ''user_id'' then od\<lparr>o_user_id := i\<rparr>
      else od)"
| "setattr_Order (k, v) od = od"

text \<open>
  A new row takes the key that the loaded data give it, and the next auto-increment key
  when they give none; the auto-increment counter stays above every key inserted. An
  attribute that the loaded data do not give stays None and is sent as NULL.
\<close>

definition commit_add_User :: "store \<Rightarrow> (string \<times> pyval) list \<Rightarrow> exn + user \<times> store" where
  "commit_add_User s data =
     (case (map_of data ''name'', map_of data ''address'', map_of data ''email'') of
        (Some (PStr n), Some (PStr a), Some (PStr e)) \<Rightarrow>
          (let k = (case loaded_key data of None \<Rightarrow> user_seq s | Some i \<Rightarrow> i);
               u = \<lparr>u_id = k, u_name = n, u_address = a, u_email = e\<rparr>
           in if length n > 100 \<or> length a > 200 \<or> length e > 120 then Inl DataError
              else if k \<in> set (map u_id (users s)) \<or> e \<in> set (map u_email (users s))
              then Inl IntegrityError
              else Inr (u, s\<lparr>users := users s @ [u], user_seq := max (user_seq s) (k + 1)\<rparr>))
      | _ \<Rightarrow> Inl IntegrityError)"


text \<open>\<open>utcnow\<close> is the value of \<^verbatim>\<open>datetime.utcnow\<close>, the default of \<^verbatim>\<open>order_date\<close>.\<close>

definition commit_add_Order :: "datetime \<Rightarrow> store \<Rightarrow> (string \<times> pyval) list \<Rightarrow> exn + order \<times> store" where
  "commit_add_Order utcnow s data =
     (case map_of data ''user_id'' of
        Some (PInt uid) \<Rightarrow>
          (let k = (case loaded_key data of None \<Rightarrow> order_seq s | Some i \<Rightarrow> i);
               d = (case map_of data ''order_date'' of Some (PStr x) \<Rightarrow> x | _ \<Rightarrow> utcnow);
               od = \<lparr>o_id = k, o_order_date = d, o_user_id = uid\<rparr>
           in if get_User s uid = None \<or> k \<in> set (map o_id (orders s))
              then Inl IntegrityError
              else Inr (od, s\<lparr>orders := orders s @ [od], order_seq := max (order_seq s) (k + 1)\<rparr>))
      | _ \<Rightarrow> Inl IntegrityError)"

text \<open>
  An UPDATE writes the columns whose attribute changed, in the row of the instance's key.
  A changed key must be free, and is refused while rows of another table refer to the old
  one (no cascade is declared).
\<close>

definition commit_update_User :: "store \<Rightarrow> user \<Rightarrow> user \<Rightarrow> exn + store" where
  "commit_update_User s u u' =
     (if (u_name u' \<noteq> u_name u \<and> length (u_name u') > 100)
         \<or> (u_address u' \<noteq> u_address u \<and> length (u_address u') > 200)
         \<or> (u_email u' \<noteq> u_email u \<and> length (u_email u') > 120)
      then Inl DataError
      else if (u_email u' \<noteq> u_email u
               \<and> u_email u' \<in> set (map u_email (filter (\<lambda>x. u_id x \<noteq> u_id u) (users s))))
              \<or> (u_id u' \<noteq> u_id u
                  \<and> (u_id u' \<in> set (map u_id (users s)) \<or> user_orders s u \<noteq> []))
      then Inl IntegrityError
      else Inr (s\<lparr>users :=
             map (\<lambda>x. if u_id x = u_id u
                       then (if u_id u' \<noteq> u_id u then x\<lparr>u_id := u_id u'\<rparr> else x)
                             \<lparr>u_name := (if u_name u' \<noteq> u_name u then u_name u' else u_name x),
                              u_address :=
                                (if u_address u' \<noteq> u_address u then u_address u' else u_address x),
                              u_email := (if u_email u' \<noteq> u_email u then u_email u' else u_email x)\<rparr>
                       else x)
               (users s)\<rparr>))"

definition commit_update_Product :: "store \<Rightarrow> product \<Rightarrow> product \<Rightarrow> exn + store" where
  "commit_update_Product s p p' =
     (if p_product_name p' \<noteq> p_product_name p \<and> length (p_product_name p') > 100
      then Inl DataError
      else if p_id p' \<noteq> p_id p
              \<and> (p_id p' \<in> set (map p_id (products s))
                  \<or> p_id p \<in> set (map snd (order_product s)))
      then Inl IntegrityError
      else Inr (s\<lparr>products :=
             map (\<lambda>x. if p_id x = p_id p
                       then (if p_id p' \<noteq> p_id p then x\<lparr>p_id := p_id p'\<rparr> else x)
                             \<lparr>p_product_name :=
                                (if p_product_name p' \<noteq> p_product_name p then p_product_name p'
                                 else p_product_name x),
                              p_price := (if p_price p' \<noteq> p_price p then p_price p' else p_price x)\<rparr>
                       else x)
               (products s)\<rparr>))"

definition commit_update_Order :: "store \<Rightarrow> order \<Rightarrow> order \<Rightarrow> exn + store" where
  "commit_update_Order s od od' =
     (if (o_user_id od' \<noteq> o_user_id od \<and> get_User s (o_user_id od') = None)
         \<or> (o_id od' \<noteq> o_id od
             \<and> (o_id od' \<in> set (map o_id (orders s))
                 \<or> o_id od \<in> set (map fst (order_product s))))
      then Inl IntegrityError
      else Inr (s\<lparr>orders :=
             map (\<lambda>x. if o_id x = o_id od
                       then (if o_id od' \<noteq> o_id od then x\<lparr>o_id := o_id od'\<rparr> else x)
                             \<lparr>o_order_date :=
                                (if o_order_date od' \<noteq> o_order_date od then o_order_date od'
                                 else o_order_date x),
                              o_user_id :=
                                (if o_user_id od' \<noteq> o_user_id od then o_user_id od'
                                 else o_user_id x)\<rparr>
                       else x)
               (orders s)\<rparr>))"

text \<open>
  No cascade is configured. Deleting a user first sets \<^verbatim>\<open>user_id\<close> of the user's orders to
  NULL, which the column refuses; deleting a product also deletes its rows of the
  association table, as SQLAlchemy does for a \<^verbatim>\<open>secondary\<close> table.
\<close>

definition commit_delete_User :: "store \<Rightarrow> user \<Rightarrow> exn + store" where
  "commit_delete_User s u =
     (if user_orders s u \<noteq> [] then Inl IntegrityError
      else Inr (s\<lparr>users := filter (\<lambda>x. u_id x \<noteq> u_id u) (users s)\<rparr>))"

definition commit_delete_Product :: "store \<Rightarrow> product \<Rightarrow> exn + store" where
  "commit_delete_Product s p =
     Inr (s\<lparr>products := filter (\<lambda>x. p_id x \<noteq> p_id p) (products s),
            order_product := filter (\<lambda>link. snd link \<noteq> p_id p) (order_product s)\<rparr>)"

text \<open>
  The loaded data written onto an instance and committed, with the response of the routes
  that end so: \<^verbatim>\<open>schema.jsonify(instance), code\<close>.
\<close>

definition write_User :: "store \<Rightarrow> user \<Rightarrow> (string \<times> pyval) list \<Rightarrow> nat \<Rightarrow> response \<times> store" where
  "write_User s u data code =
     (let updated = fold setattr_User data u
      in case commit_update_User s u updated of
           Inl e \<Rightarrow> (Raises e, s)
         | Inr s' \<Rightarrow> (schema_jsonify s' UserSchema (UserRow updated) code, s'))"

definition write_Product :: "store \<Rightarrow> product \<Rightarrow> (string \<times> pyval) list \<Rightarrow> nat \<Rightarrow> response \<times> store" where
  "write_Product s p data code =
     (let updated = fold setattr_Product data p
      in case commit_update_Product s p updated of
           Inl e \<Rightarrow> (Raises e, s)
         | Inr s' \<Rightarrow> (schema_jsonify s' ProductSchema (ProductRow updated) code, s'))"

definition write_Order :: "store \<Rightarrow> order \<Rightarrow> (string \<times> pyval) list \<Rightarrow> nat \<Rightarrow> response \<times> store" where
  "write_Order s od data code =
     (let updated = fold setattr_Order data od
      in case commit_update_Order s od updated of
           Inl e \<Rightarrow> (Raises e, s)
         | Inr s' \<Rightarrow> (schema_jsonify s' OrderSchema (OrderRow updated) code, s'))"

section \<open>Routes\<close>


definition get_user :: "store \<Rightarrow> nat \<Rightarrow> response \<times> store" where
  "get_user s user_id =
     (case get_User s (int user_id) of
        None \<Rightarrow> (jsonify (PSet [PStr ''User not found'']) 400, s)
      | Some u \<Rightarrow> (schema_jsonify s UserSchema (UserRow u) 200, s))"

definition create_user :: "lib \<Rightarrow> store \<Rightarrow> pyval \<Rightarrow> response \<times> store" where
  "create_user L s payload =
     (case schema_load L UserSchema False payload of
        Inl err \<Rightarrow> (jsonify (messages err) 400, s)
      | Inr data \<Rightarrow>
          if names_relationship UserSchema data then (Outside_Model, s)
          else (case get_instance_User s data of
                  Some u \<Rightarrow> write_User s u data 200
                | None \<Rightarrow>
                    (case commit_add_User s data of
                       Inl e \<Rightarrow> (Raises e, s)
                     | Inr (u, s') \<Rightarrow> (schema_jsonify s' UserSchema (UserRow u) 200, s'))))"

definition update_user :: "lib \<Rightarrow> store \<Rightarrow> nat \<Rightarrow> pyval \<Rightarrow> response \<times> store" where
  "update_user L s user_id payload =
     (case get_User s (int user_id) of
        None \<Rightarrow> (jsonify (PDict [(''error'', PStr ''User not found'')]) 400, s)
      | Some u \<Rightarrow>
          (case schema_load L UserSchema True payload of
             Inl err \<Rightarrow> (jsonify (messages err) 400, s)
           | Inr data \<Rightarrow>
               if names_relationship UserSchema data then (Outside_Model, s)
               else write_User s u data 200))"

definition delete_user :: "store \<Rightarrow> nat \<Rightarrow> response \<times> store" where
  "delete_user s user_id =
     (case get_User s (int user_id) of
        None \<Rightarrow> (jsonify (PDict [(''error'', PStr ''User not found'')]) 400, s)
      | Some u \<Rightarrow>
          (case commit_delete_User s u of
             Inl e \<Rightarrow> (Raises e, s)
           | Inr s' \<Rightarrow>
               (jsonify (PDict [(''message'', PStr (''User '' @ decimal user_id @ '' deleted''))]) 200,
                s')))"


definition get_product :: "store \<Rightarrow> nat \<Rightarrow> response \<times> store" where
  "get_product s product_id =
     (case get_Product s (int product_id) of
        None \<Rightarrow> (jsonify (PDict [(''error'', PStr ''Product not found'')]) 404, s)
      | Some p \<Rightarrow> (schema_jsonify s ProductSchema (ProductRow p) 200, s))"


definition update_product :: "lib \<Rightarrow> store \<Rightarrow> nat \<Rightarrow> pyval \<Rightarrow> response \<times> store" where
  "update_product L s product_id payload =
     (case get_Product s (int product_id) of
        None \<Rightarrow> (jsonify (PDict [(''error'', PStr ''Product not found'')]) 400, s)
      | Some p \<Rightarrow>
          (case schema_load L ProductSchema True payload of
             Inl err \<Rightarrow> (jsonify (messages err) 400, s)
           | Inr data \<Rightarrow>
               if names_relationship ProductSchema data then (Outside_Model, s)
               else write_Product s p data 200))"

definition delete_product :: "store \<Rightarrow> nat \<Rightarrow> response \<times> store" where
  "delete_product s product_id =
     (case get_Product s (int product_id) of
        None \<Rightarrow> (jsonify (PDict [(''error'', PStr ''Product not found'')]) 404, s)
      | Some p \<Rightarrow>
          (case commit_delete_Product s p of
             Inl e \<Rightarrow> (Raises e, s)
           | Inr s' \<Rightarrow>
               (jsonify
                  (PDict [(''message'', PStr (''Product '' @ decimal product_id @ '' deleted''))]) 200,
                s')))"

definition create_order :: "lib \<Rightarrow> datetime \<Rightarrow> store \<Rightarrow> pyval \<Rightarrow> response \<times> store" where
  "create_order L utcnow s payload =
     (case schema_load L OrderSchema False payload of
        Inl err \<Rightarrow> (jsonify (messages err) 400, s)
      | Inr data \<Rightarrow>
          if names_relationship OrderSchema data then (Outside_Model, s)
          else (case get_instance_Order s data of
                  Some od \<Rightarrow> write_Order s od data 201
                | None \<Rightarrow>
                    (case commit_add_Order utcnow s data of
                       Inl e \<Rightarrow> (Raises e, s)
                     | Inr (od, s') \<Rightarrow> (schema_jsonify s' OrderSchema (OrderRow od) 201, s'))))"

text \<open>
  \<^verbatim>\<open>order.products.append(product)\<close> adds one row to the association table and
  \<^verbatim>\<open>order.products.remove(product)\<close> takes the row of that pair out; the commit is inside
  the \<^verbatim>\<open>if\<close>, and the response is built after it.
\<close>

definition add_product_to_order :: "store \<Rightarrow> nat \<Rightarrow> nat \<Rightarrow> response \<times> store" where
  "add_product_to_order s order_id product_id =
     (case (get_Order s (int order_id), get_Product s (int product_id)) of
        (Some od, Some p) \<Rightarrow>
          (let s' = (if p \<notin> set (order_products s od)
                     then s\<lparr>order_product := order_product s @ [(o_id od, p_id p)]\<rparr>
                     else s)
           in (schema_jsonify s' OrderSchema (OrderRow od) 200, s'))
      | _ \<Rightarrow> (jsonify (PDict [(''error'', PStr ''Order or product not found'')]) 400, s))"

definition remove_product_from_order :: "store \<Rightarrow> nat \<Rightarrow> nat \<Rightarrow> response \<times> store" where
  "remove_product_from_order s order_id product_id =
     (case (get_Order s (int order_id), get_Product s (int product_id)) of
        (Some od, Some p) \<Rightarrow>
          (let s' = (if p \<in> set (order_products s od)
                     then s\<lparr>order_product := remove1 (o_id od, p_id p) (order_product s)\<rparr>
                     else s)
           in (schema_jsonify s' OrderSchema (OrderRow od) 200, s'))
      | _ \<Rightarrow> (jsonify (PDict [(''error'', PStr ''Order or product not found'')]) 404, s))"

definition get_orders_by_user :: "store \<Rightarrow> nat \<Rightarrow> response \<times> store" where
  "get_orders_by_user s user_id =
     (case get_User s (int user_id) of
        None \<Rightarrow> (jsonify (PDict [(''error'', PStr ''User not found'')]) 404, s)
      | Some u \<Rightarrow> (schema_jsonify_many s OrderSchema (map OrderRow (user_orders s u)) 200, s))"

definition get_products_in_order :: "store \<Rightarrow> nat \<Rightarrow> response \<times> store" where
  "get_products_in_order s order_id =
     (case get_Order s (int order_id) of
        None \<Rightarrow> (jsonify (PDict [(''error'', PStr ''Order not found'')]) 404, s)
      | Some od \<Rightarrow> (schema_jsonify_many s ProductSchema (map ProductRow (order_products s od)) 200, s))"

section \<open>The specification's side\<close>

text \<open>
  The truncation table of the specification, section 4.2, written out as it reads: what
  each dump contains, and what each nested object is reduced to. The related rows are the
  ones the relationship gives; an order without a user row has null for its user.
\<close>

definition spec_user_dump :: "store \<Rightarrow> user \<Rightarrow> pyval" where
  "spec_user_dump s u =
     PDict [(''id'', PInt (u_id u)), (''name'', PStr (u_name u)),
            (''address'', PStr (u_address u)), (''email'', PStr (u_email u)),
            (''orders'',
             PList (map (\<lambda>od. PDict [(''id'', PInt (o_id od)),
                                     (''order_date'', PStr (o_order_date od))])
                      (user_orders s u)))]"

definition spec_order_dump :: "store \<Rightarrow> order \<Rightarrow> pyval" where
  "spec_order_dump s od =
     PDict [(''id'', PInt (o_id od)), (''order_date'', PStr (o_order_date od)),
            (''user_id'', PInt (o_user_id od)),
            (''user'',
             case order_user s od of
               None \<Rightarrow> PNone
             | Some u \<Rightarrow> PDict [(''id'', PInt (u_id u)), (''name'', PStr (u_name u)),
                                (''email'', PStr (u_email u))]),
            (''products'',
             PList (map (\<lambda>p. PDict [(''id'', PInt (p_id p)),
                                    (''product_name'', PStr (p_product_name p)),
                                    (''price'', PFloat (p_price p))])
                      (order_products s od)))]"

definition spec_product_dump :: "store \<Rightarrow> product \<Rightarrow> pyval" where
  "spec_product_dump s p =
     PDict [(''id'', PInt (p_id p)), (''product_name'', PStr (p_product_name p)),
            (''price'', PFloat (p_price p)),
            (''orders'',
             PList (map (\<lambda>od. PDict [(''id'', PInt (o_id od)),
                                     (''order_date'', PStr (o_order_date od)),
                                     (''user_id'', PInt (o_user_id od))])
                      (product_orders s p)))]"

text \<open>The address that the specification accepts on write: a string of 5 to 150 characters.\<close>

definition address_ok :: "pyval \<Rightarrow> bool" where
  "address_ok v = (case v of PStr a \<Rightarrow> 5 \<le> length a \<and> length a \<le> 150 | _ \<Rightarrow> False)"



section \<open>Sample data\<close>

text \<open>
  One instance of the library functions and one database, for evaluating the routes on
  concrete requests. The sample conversions accept the JSON value of the right type, the
  sample email check asks for an at sign, and nested data is refused.
\<close>

definition sample_lib :: lib where
  "sample_lib =
     \<lparr>email_valid = (\<lambda>x. CHR ''@'' \<in> set x),
      as_integer = (\<lambda>v. case v of PInt i \<Rightarrow> Inr i | _ \<Rightarrow> Inl [''Not a valid integer.'']),
      as_float = (\<lambda>v. case v of PFloat x \<Rightarrow> Inr x | PInt i \<Rightarrow> Inr (of_int i)
                        | _ \<Rightarrow> Inl [''Not a valid number.'']),
      as_datetime = (\<lambda>v. case v of PStr d \<Rightarrow> Inr d | _ \<Rightarrow> Inl [''Not a valid datetime.'']),
      as_related = (\<lambda>t v. Inl (Messages [''Not a valid list.'']))\<rparr>"

definition ann :: user where
  "ann = \<lparr>u_id = 1, u_name = ''Ann'', u_address = ''1 Main Street'', u_email = ''ann@example.com''\<rparr>"

definition widget :: product where
  "widget = \<lparr>p_id = 1, p_product_name = ''Widget'', p_price = 999 / 100\<rparr>"

definition gadget :: product where
  "gadget = \<lparr>p_id = 2, p_product_name = ''Gadget'', p_price = 5\<rparr>"

definition first_order :: order where
  "first_order = \<lparr>o_id = 1, o_order_date = ''2024-05-01T10:00:00'', o_user_id = 1\<rparr>"

definition sample_store :: store where
  "sample_store =
     \<lparr>users = [ann], orders = [first_order], products = [widget, gadget],
      order_product = [(1, 1)], user_seq = 2, order_seq = 2, product_seq = 3\<rparr>"

definition bob :: user where
  "bob = \<lparr>u_id = 2, u_name = ''Bob'', u_address = ''22 Side Road'', u_email = ''bob@example.com''\<rparr>"








definition empty_store :: store where
  "empty_store =
     \<lparr>users = [], orders = [], products = [], order_product = [],
      user_seq = 1, order_seq = 1, product_seq = 1\<rparr>"

section \<open>Serialisation\<close>

lemma those_map_Some: "those (map (\<lambda>x. Some (f x)) xs) = Some (map f xs)"
  by (induction xs) simp_all

lemmas schema_defs = schema_fields_def auto_fields_def field_for_column_def col_def
  has_default_def fld_def

lemma nested_order_in_user:
  "dump (Suc n) s OrderSchema (Some [''id'', ''order_date'']) (OrderRow od) =
     Some (PDict [(''id'', PInt (o_id od)), (''order_date'', PStr (o_order_date od))])"
  by (simp add: dump_fields_def schema_defs)

lemma nested_order_in_product:
  "dump (Suc n) s OrderSchema (Some [''id'', ''order_date'', ''user_id'']) (OrderRow od) =
     Some (PDict [(''id'', PInt (o_id od)), (''order_date'', PStr (o_order_date od)),
                  (''user_id'', PInt (o_user_id od))])"
  by (simp add: dump_fields_def schema_defs)

lemma nested_user_in_order:
  "dump (Suc n) s UserSchema (Some [''id'', ''name'', ''email'']) (UserRow u) =
     Some (PDict [(''id'', PInt (u_id u)), (''name'', PStr (u_name u)),
                  (''email'', PStr (u_email u))])"
  by (simp add: dump_fields_def schema_defs)

lemma nested_product_in_order:
  "dump (Suc n) s ProductSchema (Some [''id'', ''product_name'', ''price'']) (ProductRow p) =
     Some (PDict [(''id'', PInt (p_id p)), (''product_name'', PStr (p_product_name p)),
                  (''price'', PFloat (p_price p))])"
  by (simp add: dump_fields_def schema_defs)

lemma dump_User:
  "dump (Suc (Suc n)) s UserSchema None (UserRow u) = Some (spec_user_dump s u)"
  by (simp add: dump_fields_def schema_defs nested_order_in_user those_map_Some
      spec_user_dump_def comp_def del: dump.simps(2)
      add: dump.simps(2)[of "Suc n"])

lemma dump_Order:
  "dump (Suc (Suc n)) s OrderSchema None (OrderRow od) = Some (spec_order_dump s od)"
  by (simp add: dump_fields_def schema_defs nested_user_in_order nested_product_in_order
      those_map_Some spec_order_dump_def comp_def split: option.split
      del: dump.simps(2) add: dump.simps(2)[of "Suc n"])

lemma dump_Product:
  "dump (Suc (Suc n)) s ProductSchema None (ProductRow p) = Some (spec_product_dump s p)"
  by (simp add: dump_fields_def schema_defs nested_order_in_product those_map_Some
      spec_product_dump_def comp_def del: dump.simps(2)
      add: dump.simps(2)[of "Suc n"])

lemma recursion_limit_Suc: "recursion_limit = Suc (Suc 998)"
  by (simp add: recursion_limit_def)

lemma json_ok_user: "json_ok (spec_user_dump s u)"
  by (simp add: spec_user_dump_def list_all_iff)

lemma json_ok_order: "json_ok (spec_order_dump s od)"
  by (simp add: spec_order_dump_def list_all_iff split: option.split)


lemma dump_limit:
  "dump recursion_limit s UserSchema None (UserRow u) = Some (spec_user_dump s u)"
  "dump recursion_limit s OrderSchema None (OrderRow od) = Some (spec_order_dump s od)"
  "dump recursion_limit s ProductSchema None (ProductRow p) = Some (spec_product_dump s p)"
  unfolding recursion_limit_Suc by (rule dump_User dump_Order dump_Product)+

lemma jsonify_User:
  "schema_jsonify s UserSchema (UserRow u) code = Response code (spec_user_dump s u)"
  by (simp add: schema_jsonify_def dump_limit jsonify_def json_ok_user)

lemma jsonify_Order:
  "schema_jsonify s OrderSchema (OrderRow od) code = Response code (spec_order_dump s od)"
  by (simp add: schema_jsonify_def dump_limit jsonify_def json_ok_order)



lemma jsonify_many_Order:
  "schema_jsonify_many s OrderSchema (map OrderRow os) code =
     Response code (PList (map (spec_order_dump s) os))"
  by (simp add: schema_jsonify_many_def dump_limit jsonify_def json_ok_order
      comp_def those_map_Some list_all_iff)


text \<open>
  Claim C1. The dump follows the truncation table. At every depth bound of two or more,
  the dump of a user is its id, name, address and email and its orders reduced to id and
  order_date; the dump of an order is its id, order_date and user_id, its user reduced to
  id, name and email, and its products reduced to id, product_name and price; the dump of
  a product is its id, product_name and price and its orders reduced to id, order_date and
  user_id. The key order of an object carries no meaning.
\<close>

theorem dump_truncation_table:
  assumes "2 \<le> n"
  shows "dump n s UserSchema None (UserRow u) = Some (spec_user_dump s u)
    \<and> dump n s OrderSchema None (OrderRow od) = Some (spec_order_dump s od)
    \<and> dump n s ProductSchema None (ProductRow p) = Some (spec_product_dump s p)"
proof -
  from assms obtain m where n: "n = Suc (Suc m)"
    by (metis add_2_eq_Suc le_Suc_ex)
  show ?thesis
    unfolding n using dump_User dump_Order dump_Product by blast
qed

theorem dump_truncation_table_witness:
  "(2::nat) \<le> 2
   \<and> dump 2 sample_store UserSchema None (UserRow ann) =
       Some (PDict [(''id'', PInt 1), (''name'', PStr ''Ann''),
                    (''address'', PStr ''1 Main Street''), (''email'', PStr ''ann@example.com''),
                    (''orders'', PList [PDict [(''id'', PInt 1),
                                               (''order_date'', PStr ''2024-05-01T10:00:00'')]])])
   \<and> dump 2 sample_store OrderSchema None (OrderRow first_order) =
       Some (PDict [(''id'', PInt 1), (''order_date'', PStr ''2024-05-01T10:00:00''),
                    (''user_id'', PInt 1),
                    (''user'', PDict [(''id'', PInt 1), (''name'', PStr ''Ann''),
                                      (''email'', PStr ''ann@example.com'')]),
                    (''products'', PList [PDict [(''id'', PInt 1),
                                                 (''product_name'', PStr ''Widget''),
                                                 (''price'', PFloat (999 / 100))]])])
   \<and> dump 2 sample_store ProductSchema None (ProductRow widget) =
       Some (PDict [(''id'', PInt 1), (''product_name'', PStr ''Widget''),
                    (''price'', PFloat (999 / 100)),
                    (''orders'', PList [PDict [(''id'', PInt 1),
                                               (''order_date'', PStr ''2024-05-01T10:00:00''),
                                               (''user_id'', PInt 1)]])])"
  using dump_truncation_table [of 2 sample_store ann first_order widget]
  by (simp add: spec_user_dump_def spec_order_dump_def spec_product_dump_def sample_store_def
      ann_def first_order_def widget_def gadget_def user_orders_def order_user_def get_User_def
      order_products_def product_orders_def del: dump.simps)

section \<open>Linking, unlinking and missing rows\<close>

lemma get_Product_SomeD:
  "get_Product s i = Some p \<Longrightarrow> p \<in> set (products s) \<and> p_id p = i"
  by (auto simp: get_Product_def find_Some_iff in_set_conv_nth)

lemma get_Order_SomeD:
  "get_Order s i = Some od \<Longrightarrow> od \<in> set (orders s) \<and> o_id od = i"
  by (auto simp: get_Order_def find_Some_iff in_set_conv_nth)

lemma get_User_SomeD:
  "get_User s i = Some u \<Longrightarrow> u \<in> set (users s) \<and> u_id u = i"
  by (auto simp: get_User_def find_Some_iff in_set_conv_nth)

lemma in_order_products:
  "p \<in> set (order_products s od) \<longleftrightarrow>
     p \<in> set (products s) \<and> (o_id od, p_id p) \<in> set (order_product s)"
  by (auto simp: order_products_def split: if_splits)

lemma count_filter_id:
  "distinct (map p_id ps) \<Longrightarrow> p \<in> set ps \<Longrightarrow>
     count_list (filter (\<lambda>x. p_id x = p_id p) ps) p = 1"
proof (induction ps)
  case Nil
  then show ?case by simp
next
  case (Cons a ps)
  show ?case
  proof (cases "a = p")
    case True
    with Cons.prems have "\<forall>x\<in>set ps. p_id x \<noteq> p_id p"
      by (auto simp: image_iff)
    then have "filter (\<lambda>x. p_id x = p_id p) ps = []"
      by (simp add: filter_empty_conv)
    with True show ?thesis by simp
  next
    case False
    with Cons.prems have "p \<in> set ps" "distinct (map p_id ps)" by auto
    with Cons.IH False show ?thesis by simp
  qed
qed

lemma count_filter_other:
  "pid \<noteq> p_id p \<Longrightarrow> count_list (filter (\<lambda>x. p_id x = pid) ps) p = 0"
  by (simp add: count_list_0_iff)

lemma count_concat_links:
  assumes "distinct (map p_id ps)" "p \<in> set ps"
  shows "count_list
      (concat (map (\<lambda>(oid, pid). if oid = k then filter (\<lambda>x. p_id x = pid) ps else []) links)) p
    = count_list links (k, p_id p)"
proof (induction links)
  case Nil
  then show ?case by simp
next
  case (Cons l links)
  obtain oid pid where l: "l = (oid, pid)" by (cases l)
  show ?case
    using Cons.IH assms
    by (simp add: l count_filter_id count_filter_other)
qed

lemma count_order_products:
  "distinct (map p_id (products s)) \<Longrightarrow> p \<in> set (products s) \<Longrightarrow>
     count_list (order_products s od) p = count_list (order_product s) (o_id od, p_id p)"
  by (simp add: order_products_def count_concat_links)

lemma count_distinct_member:
  "distinct xs \<Longrightarrow> x \<in> set xs \<Longrightarrow> count_list xs x = 1"
  by (induction xs) (auto simp: count_list_0_iff)


lemma add_product_result:
  assumes "get_Order s (int order_id) = Some od" "get_Product s (int product_id) = Some p"
  shows "add_product_to_order s order_id product_id =
     (let s' = (if (int order_id, int product_id) \<in> set (order_product s) then s
                else s\<lparr>order_product := order_product s @ [(int order_id, int product_id)]\<rparr>)
      in (Response 200 (spec_order_dump s' od), s'))"
  using assms get_Order_SomeD [OF assms(1)] get_Product_SomeD [OF assms(2)]
  by (simp add: add_product_to_order_def in_order_products jsonify_Order Let_def)

lemma remove_product_result:
  assumes "get_Order s (int order_id) = Some od" "get_Product s (int product_id) = Some p"
  shows "remove_product_from_order s order_id product_id =
     (let s' = (if (int order_id, int product_id) \<in> set (order_product s)
                then s\<lparr>order_product := remove1 (int order_id, int product_id) (order_product s)\<rparr>
                else s)
      in (Response 200 (spec_order_dump s' od), s'))"
  using assms get_Order_SomeD [OF assms(1)] get_Product_SomeD [OF assms(2)]
  by (simp add: remove_product_from_order_def in_order_products jsonify_Order Let_def)

lemma get_after_link [simp]:
  "get_Order (s\<lparr>order_product := l\<rparr>) i = get_Order s i"
  "get_Product (s\<lparr>order_product := l\<rparr>) i = get_Product s i"
  "get_User (s\<lparr>order_product := l\<rparr>) i = get_User s i"
  by (simp_all add: get_Order_def get_Product_def get_User_def)

text \<open>
  Claim C3. Linking is idempotent. For an order and a product that exist, a second
  PUT /orders/order_id/add_product/product_id gives the response and the database of the
  first; the pair is then in the association, and the first call changes nothing when the
  pair was there already. Where the association holds no pair twice (its primary key),
  it still holds none twice afterwards and holds this pair once; where the product keys
  are distinct as well, the product is once in the order's product list.
\<close>

theorem add_product_twice:
  assumes "get_Order s (int order_id) = Some od" "get_Product s (int product_id) = Some p"
  shows "let r = add_product_to_order s order_id product_id; s1 = snd r in
           add_product_to_order s1 order_id product_id = r
         \<and> status (fst r) = 200
         \<and> (int order_id, int product_id) \<in> set (order_product s1)
         \<and> ((int order_id, int product_id) \<in> set (order_product s) \<longrightarrow> s1 = s)
         \<and> (distinct (order_product s) \<longrightarrow> distinct (order_product s1)
              \<and> count_list (order_product s1) (int order_id, int product_id) = 1)
         \<and> (distinct (order_product s) \<and> distinct (map p_id (products s)) \<longrightarrow>
              count_list (order_products s1 od) p = 1)"
proof -
  define s1 where "s1 = snd (add_product_to_order s order_id product_id)"
  have s1: "s1 = (if (int order_id, int product_id) \<in> set (order_product s) then s
                  else s\<lparr>order_product := order_product s @ [(int order_id, int product_id)]\<rparr>)"
    by (simp add: s1_def add_product_result [OF assms] Let_def)
  have linked: "(int order_id, int product_id) \<in> set (order_product s1)"
    by (simp add: s1)
  have od1: "get_Order s1 (int order_id) = Some od" and p1: "get_Product s1 (int product_id) = Some p"
    using assms by (simp_all add: s1)
  have first: "add_product_to_order s order_id product_id = (Response 200 (spec_order_dump s1 od), s1)"
    by (simp add: add_product_result [OF assms] s1 Let_def)
  have again: "add_product_to_order s1 order_id product_id = (Response 200 (spec_order_dump s1 od), s1)"
    using linked by (simp add: add_product_result [OF od1 p1] Let_def)
  have noop: "(int order_id, int product_id) \<in> set (order_product s) \<longrightarrow> s1 = s"
    by (simp add: s1)
  have dist: "distinct (order_product s) \<longrightarrow> distinct (order_product s1)"
    by (simp add: s1)
  have once: "distinct (order_product s) \<longrightarrow>
      count_list (order_product s1) (int order_id, int product_id) = 1"
    using dist linked by (simp add: count_distinct_member)
  have ids: "o_id od = int order_id" "p_id p = int product_id" "p \<in> set (products s1)"
    "products s1 = products s"
    using get_Order_SomeD [OF assms(1)] get_Product_SomeD [OF assms(2)] by (simp_all add: s1)
  have listed: "distinct (order_product s) \<and> distinct (map p_id (products s)) \<longrightarrow>
      count_list (order_products s1 od) p = 1"
    using once ids by (simp add: count_order_products)
  show ?thesis
    unfolding Let_def s1_def [symmetric]
    using first again linked noop dist once listed by simp
qed

theorem add_product_twice_witness:
  "get_Order sample_store (int 1) = Some first_order
   \<and> get_Product sample_store (int 2) = Some gadget
   \<and> distinct (order_product sample_store) \<and> distinct (map p_id (products sample_store))
   \<and> order_product (snd (add_product_to_order sample_store 1 2)) = [(1, 1), (1, 2)]
   \<and> add_product_to_order (snd (add_product_to_order sample_store 1 2)) 1 2 =
       add_product_to_order sample_store 1 2
   \<and> count_list (order_products (snd (add_product_to_order sample_store 1 2)) first_order) gadget = 1"
proof -
  have od: "get_Order sample_store (int 1) = Some first_order"
    by (simp add: get_Order_def sample_store_def first_order_def)
  have p: "get_Product sample_store (int 2) = Some gadget"
    by (simp add: get_Product_def sample_store_def gadget_def widget_def)
  have d: "distinct (order_product sample_store)" "distinct (map p_id (products sample_store))"
    by (simp_all add: sample_store_def gadget_def widget_def)
  have l: "order_product (snd (add_product_to_order sample_store 1 2)) = [(1, 1), (1, 2)]"
    using add_product_result [OF od p] by (simp add: sample_store_def Let_def)
  show ?thesis
    using add_product_twice [OF od p] od p d l by (simp add: Let_def)
qed


text \<open>
  Claim C5. For an id with no user, GET /users/id is meant to answer 400 with an error
  body. The source passes a set literal to \<^verbatim>\<open>jsonify\<close>, which raises \<^verbatim>\<open>TypeError\<close>: the
  route ends in an unhandled exception, status 500, and the database is unchanged.
\<close>

theorem get_user_absent_raises:
  assumes "get_User s (int user_id) = None"
  shows "get_user s user_id = (Raises TypeError, s)"
  using assms by (simp add: get_user_def jsonify_def)

theorem get_user_absent_raises_witness:
  "get_User empty_store (int 1) = None
   \<and> get_user empty_store 1 = (Raises TypeError, empty_store)
   \<and> status (fst (get_user empty_store 1)) = 500"
proof -
  have h: "get_User empty_store (int 1) = None"
    by (simp add: get_User_def empty_store_def)
  show ?thesis
    using h get_user_absent_raises [OF h] by simp
qed

text \<open>
  Claim C7. For an order and a product that exist and are not linked,
  DELETE /orders/order_id/remove_product/product_id answers 200 with the dump of the
  order and leaves the database, hence the association and the order's product list, as
  it was; the product is not in that list.
\<close>

theorem remove_unlinked_product:
  assumes "get_Order s (int order_id) = Some od" "get_Product s (int product_id) = Some p"
    and "(int order_id, int product_id) \<notin> set (order_product s)"
  shows "remove_product_from_order s order_id product_id = (Response 200 (spec_order_dump s od), s)
    \<and> p \<notin> set (order_products s od)"
  using assms get_Order_SomeD [OF assms(1)] get_Product_SomeD [OF assms(2)]
  by (simp add: remove_product_result [OF assms(1,2)] in_order_products)

theorem remove_unlinked_product_witness:
  "get_Order sample_store (int 1) = Some first_order
   \<and> get_Product sample_store (int 2) = Some gadget
   \<and> (int 1, int 2) \<notin> set (order_product sample_store)
   \<and> status (fst (remove_product_from_order sample_store 1 2)) = 200
   \<and> snd (remove_product_from_order sample_store 1 2) = sample_store"
proof -
  have od: "get_Order sample_store (int 1) = Some first_order"
    by (simp add: get_Order_def sample_store_def first_order_def)
  have p: "get_Product sample_store (int 2) = Some gadget"
    by (simp add: get_Product_def sample_store_def gadget_def widget_def)
  have l: "(int 1, int 2) \<notin> set (order_product sample_store)"
    by (simp add: sample_store_def)
  show ?thesis
    using remove_unlinked_product [OF od p l] od p l by simp
qed

text \<open>
  Claim C8. For an id with no product, DELETE /products/id answers 404 with an error body;
  for an id with no user, DELETE /users/id answers 400 with an error body; the database
  is unchanged in both cases.
\<close>

theorem delete_absent:
  "(get_Product s (int product_id) = None \<longrightarrow>
      delete_product s product_id =
        (Response 404 (PDict [(''error'', PStr ''Product not found'')]), s))
   \<and> (get_User s (int user_id) = None \<longrightarrow>
      delete_user s user_id = (Response 400 (PDict [(''error'', PStr ''User not found'')]), s))"
  by (simp add: delete_product_def delete_user_def jsonify_def)

theorem delete_absent_witness:
  "get_Product sample_store (int 7) = None
   \<and> delete_product sample_store 7 =
       (Response 404 (PDict [(''error'', PStr ''Product not found'')]), sample_store)
   \<and> get_User sample_store (int 7) = None
   \<and> delete_user sample_store 7 =
       (Response 400 (PDict [(''error'', PStr ''User not found'')]), sample_store)"
proof -
  have p: "get_Product sample_store (int 7) = None"
    by (simp add: get_Product_def sample_store_def gadget_def widget_def)
  have u: "get_User sample_store (int 7) = None"
    by (simp add: get_User_def sample_store_def ann_def)
  show ?thesis
    using delete_absent [of sample_store 7 7] p u by simp
qed

text \<open>
  Claim C10. When the order or the product of the path does not exist, the PUT
  add_product route answers 400 with an error body and the DELETE remove_product route
  answers 404 with an error body; both leave the database unchanged.
\<close>

theorem link_routes_absent:
  assumes "get_Order s (int order_id) = None \<or> get_Product s (int product_id) = None"
  shows "add_product_to_order s order_id product_id =
      (Response 400 (PDict [(''error'', PStr ''Order or product not found'')]), s)
    \<and> remove_product_from_order s order_id product_id =
      (Response 404 (PDict [(''error'', PStr ''Order or product not found'')]), s)"
  using assms
  by (auto simp: add_product_to_order_def remove_product_from_order_def jsonify_def
      split: option.splits)

theorem link_routes_absent_witness:
  "(get_Order sample_store (int 1) = None \<or> get_Product sample_store (int 7) = None)
   \<and> add_product_to_order sample_store 1 7 =
       (Response 400 (PDict [(''error'', PStr ''Order or product not found'')]), sample_store)
   \<and> remove_product_from_order sample_store 1 7 =
       (Response 404 (PDict [(''error'', PStr ''Order or product not found'')]), sample_store)
   \<and> (get_Order sample_store (int 7) = None \<or> get_Product sample_store (int 1) = None)
   \<and> add_product_to_order sample_store 7 1 =
       (Response 400 (PDict [(''error'', PStr ''Order or product not found'')]), sample_store)
   \<and> remove_product_from_order sample_store 7 1 =
       (Response 404 (PDict [(''error'', PStr ''Order or product not found'')]), sample_store)"
proof -
  have p: "get_Order sample_store (int 1) = None \<or> get_Product sample_store (int 7) = None"
    by (simp add: get_Product_def sample_store_def gadget_def widget_def)
  have od: "get_Order sample_store (int 7) = None \<or> get_Product sample_store (int 1) = None"
    by (simp add: get_Order_def sample_store_def first_order_def)
  show ?thesis
    using link_routes_absent [OF p] link_routes_absent [OF od] p od by simp
qed

section \<open>Listing and creating\<close>

lemmas load_defs = load_fields_def schema_fields_def auto_fields_def field_for_column_def col_def
  has_default_def fld_def

lemma load_fields_User:
  "load_fields UserSchema =
     [(''id'', fld FInteger),
      (''name'', (fld FStr)\<lparr>f_required := True, f_validate := [Length None (Some 100)]\<rparr>),
      (''address'', (fld FStr)\<lparr>f_validate := [Length (Some 5) (Some 150)]\<rparr>),
      (''email'', (fld FEmail)\<lparr>f_required := True\<rparr>),
      (''orders'', fld (FListNested OrderSchema [''id'', ''order_date'']))]"
  by (simp add: load_defs)


lemma load_fields_Order:
  "load_fields OrderSchema =
     [(''id'', fld FInteger),
      (''order_date'', fld FDateTime),
      (''user_id'', (fld FInteger)\<lparr>f_required := True\<rparr>),
      (''products'', fld (FListNested ProductSchema [''id'', ''product_name'', ''price'']))]"
  by (simp add: load_defs)

lemma decimal_5: "decimal 5 = ''5''" and decimal_150: "decimal 150 = ''150''"
  and decimal_100: "decimal 100 = ''100''"
  by (simp_all add: decimal.simps)

lemma deserialize_address:
  "deserialize L ((fld FStr)\<lparr>f_validate := [Length (Some 5) (Some 150)]\<rparr>) (Some v) =
     (if address_ok v then Inr (Some v)
      else Inl (Messages [case v of
              PNone \<Rightarrow> ''Field may not be null.''
            | PStr a \<Rightarrow> ''Length must be between 5 and 150.''
            | _ \<Rightarrow> ''Not a valid string.'']))"
  by (cases v) (auto simp: deserialize_def fld_def validators_def address_ok_def decimal_5 decimal_150)

lemma load_address_only:
  "schema_load L UserSchema True (PDict [(''address'', v)]) =
     (if address_ok v then Inr [(''address'', v)]
      else Inl (Errors [(''address'', Messages [case v of
              PNone \<Rightarrow> ''Field may not be null.''
            | PStr a \<Rightarrow> ''Length must be between 5 and 150.''
            | _ \<Rightarrow> ''Not a valid string.''])]))"
  by (simp add: schema_load_def load_fields_User load_field_def deserialize_address
      unknown_errors_def)























section \<open>Updating\<close>

lemma find_map_preserving:
  "(\<And>x. P (g x) = P x) \<Longrightarrow> find P (map g xs) = map_option g (find P xs)"
  by (induction xs) simp_all

lemma filter_map_fixed:
  "(\<And>x. P (g x) = P x) \<Longrightarrow> (\<And>x. P x \<Longrightarrow> g x = x) \<Longrightarrow> filter P (map g xs) = filter P xs"
  by (induction xs) auto

lemma update_address_valid:
  assumes "get_User s (int user_id) = Some u" "5 \<le> length a" "length a \<le> 150"
  shows "update_user L s user_id (PDict [(''address'', PStr a)]) =
     (let s1 = s\<lparr>users :=
                   map (\<lambda>x. if u_id x = int user_id
                             then x\<lparr>u_address := (if a \<noteq> u_address u then a else u_address x)\<rparr>
                             else x) (users s)\<rparr>
      in (Response 200 (spec_user_dump s1 (u\<lparr>u_address := a\<rparr>)), s1))"
  using assms get_User_SomeD [OF assms(1)]
  by (simp add: update_user_def load_address_only address_ok_def names_relationship_def
      write_User_def commit_update_User_def jsonify_User Let_def cong: if_cong)

lemma update_address_invalid:
  assumes "get_User s (int user_id) = Some u" "\<not> address_ok v"
  shows "snd (update_user L s user_id (PDict [(''address'', v)])) = s
    \<and> status (fst (update_user L s user_id (PDict [(''address'', v)]))) = 400"
  using assms
  by (simp add: update_user_def load_address_only jsonify_def)


text \<open>
  Claim C4. For a user that exists, PUT /users/id with a body that holds only the key
  address leaves every user's id, name and email, every other user's row and every other
  table as they were. When the value is a string of 5 to 150 characters the answer is 200
  with the dump of the user at the new address, and the user found under the id is the
  former one at the new address; otherwise the answer is 400 and nothing changes.
  Repeating the request on the resulting database gives the same response and the same
  database.
\<close>

theorem update_address_only:
  assumes "get_User s (int user_id) = Some u"
  shows "let r = update_user L s user_id (PDict [(''address'', v)]); s1 = snd r in
           map u_id (users s1) = map u_id (users s)
         \<and> map u_name (users s1) = map u_name (users s)
         \<and> map u_email (users s1) = map u_email (users s)
         \<and> filter (\<lambda>x. u_id x \<noteq> int user_id) (users s1) =
             filter (\<lambda>x. u_id x \<noteq> int user_id) (users s)
         \<and> s1\<lparr>users := users s\<rparr> = s
         \<and> (\<forall>a. v = PStr a \<and> 5 \<le> length a \<and> length a \<le> 150 \<longrightarrow>
               status (fst r) = 200
               \<and> body (fst r) = Some (spec_user_dump s1 (u\<lparr>u_address := a\<rparr>))
               \<and> get_User s1 (int user_id) = Some (u\<lparr>u_address := a\<rparr>))
         \<and> (\<not> address_ok v \<longrightarrow> status (fst r) = 400 \<and> s1 = s)
         \<and> update_user L s1 user_id (PDict [(''address'', v)]) = r"
proof (cases "address_ok v")
  case False
  have "update_user L s user_id (PDict [(''address'', v)]) =
      (fst (update_user L s user_id (PDict [(''address'', v)])), s)"
    using update_address_invalid [OF assms False, of L] by (simp add: prod_eq_iff)
  with False update_address_invalid [OF assms False, of L] show ?thesis
    by (auto simp: Let_def address_ok_def)
next
  case True
  then obtain a where v: "v = PStr a" and len: "5 \<le> length a" "length a \<le> 150"
    by (auto simp: address_ok_def split: pyval.splits)
  define g :: "user \<Rightarrow> user" where "g = (\<lambda>x. if u_id x = int user_id
      then x\<lparr>u_address := (if a \<noteq> u_address u then a else u_address x)\<rparr> else x)"
  define s1 where "s1 = s\<lparr>users := map g (users s)\<rparr>"
  define u1 where "u1 = u\<lparr>u_address := a\<rparr>"
  have first: "update_user L s user_id (PDict [(''address'', v)]) =
      (Response 200 (spec_user_dump s1 u1), s1)"
    by (simp add: v update_address_valid [OF assms len] s1_def g_def u1_def Let_def)
  have gu: "g u = u1"
    using get_User_SomeD [OF assms] by (simp add: g_def u1_def)
  have keep: "\<And>x. u_id (g x) = u_id x" "\<And>x. u_name (g x) = u_name x"
    "\<And>x. u_email (g x) = u_email x"
    by (simp_all add: g_def)
  have found: "get_User s1 (int user_id) = Some u1"
    using assms find_map_preserving [of "\<lambda>x. u_id x = int user_id" g "users s"]
    by (simp add: get_User_def s1_def keep gu)
  have others: "filter (\<lambda>x. u_id x \<noteq> int user_id) (users s1) =
      filter (\<lambda>x. u_id x \<noteq> int user_id) (users s)"
    unfolding s1_def by (simp add: filter_map_fixed [of _ g] keep) (simp add: g_def filter_map_fixed)
  have again_store: "s1\<lparr>users :=
      map (\<lambda>x. if u_id x = int user_id
                then x\<lparr>u_address := (if a \<noteq> u_address u1 then a else u_address x)\<rparr>
                else x) (users s1)\<rparr> = s1"
    by (simp add: u1_def cong: if_cong)
  have again: "update_user L s1 user_id (PDict [(''address'', v)]) =
      (Response 200 (spec_user_dump s1 u1), s1)"
    using update_address_valid [OF found len, of L] again_store
    by (simp add: v Let_def u1_def)
  have cols: "map u_id (users s1) = map u_id (users s)"
    "map u_name (users s1) = map u_name (users s)"
    "map u_email (users s1) = map u_email (users s)"
    by (simp_all add: s1_def keep comp_def)
  have rest: "s1\<lparr>users := users s\<rparr> = s"
    by (simp add: s1_def)
  have valid: "\<forall>b. v = PStr b \<longrightarrow> u\<lparr>u_address := b\<rparr> = u1"
    by (simp add: v u1_def)
  show ?thesis
    using found others True cols rest valid again
    by (simp add: Let_def first)
qed

theorem update_address_only_witness:
  "get_User sample_store (int 1) = Some ann
   \<and> users (snd (update_user sample_lib sample_store 1 (PDict [(''address'', PStr ''9 New Lane'')])))
       = [ann\<lparr>u_address := ''9 New Lane''\<rparr>]
   \<and> status (fst (update_user sample_lib sample_store 1
        (PDict [(''address'', PStr ''9 New Lane'')]))) = 200
   \<and> update_user sample_lib
        (snd (update_user sample_lib sample_store 1 (PDict [(''address'', PStr ''9 New Lane'')])))
        1 (PDict [(''address'', PStr ''9 New Lane'')])
      = update_user sample_lib sample_store 1 (PDict [(''address'', PStr ''9 New Lane'')])"
proof -
  have h: "get_User sample_store (int 1) = Some ann"
    by (simp add: get_User_def sample_store_def ann_def)
  have len: "5 \<le> length ''9 New Lane''" "length ''9 New Lane'' \<le> 150"
    by simp_all
  have us: "users (snd (update_user sample_lib sample_store 1
      (PDict [(''address'', PStr ''9 New Lane'')]))) = [ann\<lparr>u_address := ''9 New Lane''\<rparr>]"
    using update_address_valid [OF h len, of sample_lib]
    by (simp add: Let_def sample_store_def ann_def)
  show ?thesis
    using update_address_only [OF h, of sample_lib "PStr ''9 New Lane''"] h us
    by (simp add: Let_def)
qed

section \<open>Validation\<close>

lemma field_errors_set:
  "set (field_errors (map (\<lambda>(n, f). (n, h f n)) fs)) =
     {(n, e). \<exists>f. (n, f) \<in> set fs \<and> h f n = Inl e}"
proof (induction fs)
  case Nil
  then show ?case by simp
next
  case (Cons a fs)
  obtain n f where a: "a = (n, f)" by (cases a)
  show ?case
    using Cons.IH by (cases "h f n") (auto simp: a)
qed

lemma address_checked_when_given:
  assumes "schema_load L UserSchema False (PDict kvs) = Inr data"
    and "map_of kvs ''address'' = Some v"
  shows "address_ok v"
proof (rule ccontr)
  assume bad: "\<not> address_ok v"
  define f where "f = (fld FStr)\<lparr>f_validate := [Length (Some 5) (Some 150)]\<rparr>"
  have "(''address'', f) \<in> set (load_fields UserSchema)"
    by (simp add: load_fields_User f_def)
  moreover from bad assms(2) have "\<exists>e. load_field L False kvs f ''address'' = Inl e"
    by (simp add: load_field_def f_def deserialize_address)
  ultimately obtain e where "(''address'', e) \<in> set (field_errors
      (map (\<lambda>(n, f). (n, load_field L False kvs f n)) (load_fields UserSchema)))"
    unfolding field_errors_set by blast
  then have "field_errors
      (map (\<lambda>(n, f). (n, load_field L False kvs f n)) (load_fields UserSchema)) \<noteq> []"
    by auto
  with assms(1) show False
    by (simp add: schema_load_def Let_def)
qed

text \<open>
  Claim C2. On POST /users the address is meant to be required and, when given, to be 5
  to 150 characters long. The length is enforced (\<open>address_checked_when_given\<close> above),
  but the declared \<^verbatim>\<open>address\<close> field replaces the generated one without
  \<^verbatim>\<open>required=True\<close>: a payload with a valid name and email and no address passes the load,
  and the commit then fails on the NOT NULL column, an unhandled \<^verbatim>\<open>IntegrityError\<close>.
\<close>

theorem create_user_without_address:
  assumes "email_valid L e" "length n \<le> 100"
  shows "schema_load L UserSchema False (PDict [(''name'', PStr n), (''email'', PStr e)]) =
      Inr [(''name'', PStr n), (''email'', PStr e)]
    \<and> create_user L s (PDict [(''name'', PStr n), (''email'', PStr e)]) =
      (Raises IntegrityError, s)"
proof -
  have load: "schema_load L UserSchema False (PDict [(''name'', PStr n), (''email'', PStr e)]) =
      Inr [(''name'', PStr n), (''email'', PStr e)]"
    using assms
    by (simp add: schema_load_def load_fields_User load_field_def deserialize_def fld_def
        validators_def unknown_errors_def)
  then show ?thesis
    by (simp add: create_user_def names_relationship_def get_instance_User_def loaded_key_def
        commit_add_User_def)
qed

theorem create_user_without_address_witness:
  "email_valid sample_lib ''bob@example.com'' \<and> length ''Bob'' \<le> 100
   \<and> create_user sample_lib sample_store
        (PDict [(''name'', PStr ''Bob''), (''email'', PStr ''bob@example.com'')]) =
      (Raises IntegrityError, sample_store)
   \<and> status (fst (create_user sample_lib sample_store
        (PDict [(''name'', PStr ''Bob''), (''email'', PStr ''bob@example.com'')]))) = 500"
proof -
  have e: "email_valid sample_lib ''bob@example.com''"
    by (simp add: sample_lib_def)
  have n: "length ''Bob'' \<le> 100"
    by simp
  show ?thesis
    using create_user_without_address [OF e n, of sample_store] e by simp
qed

text \<open>
  Claim C6. A POST or PUT payload that violates field constraints is meant to be answered
  with 400 and a body that maps every offending field to its messages. On POST /users a
  payload with a name, an email of bad syntax and no address violates two constraints of
  the specification; the answer is 400, but the body names the email alone. The address
  that is missing goes unreported, because the declared \<^verbatim>\<open>address\<close> field is not required.
\<close>

theorem create_user_omits_missing_address:
  assumes "\<not> email_valid L e" "length n \<le> 100"
  shows "create_user L s (PDict [(''name'', PStr n), (''email'', PStr e)]) =
      (Response 400 (PDict [(''email'', PList [PStr ''Not a valid email address.''])]), s)"
  using assms
  by (simp add: create_user_def schema_load_def load_fields_User load_field_def deserialize_def
      fld_def validators_def unknown_errors_def jsonify_def)

theorem create_user_omits_missing_address_witness:
  "\<not> email_valid sample_lib ''nowhere'' \<and> length ''Bob'' \<le> 100
   \<and> create_user sample_lib sample_store
        (PDict [(''name'', PStr ''Bob''), (''email'', PStr ''nowhere'')]) =
      (Response 400 (PDict [(''email'', PList [PStr ''Not a valid email address.''])]),
       sample_store)
   \<and> map_of [(''email'', PList [PStr ''Not a valid email address.''])] ''address'' = None"
proof -
  have e: "\<not> email_valid sample_lib ''nowhere''"
    by (simp add: sample_lib_def)
  have n: "length ''Bob'' \<le> 100"
    by simp
  show ?thesis
    using create_user_omits_missing_address [OF e n, of sample_store] e by simp
qed

end
